theory Spec2Isabelle
  imports Main
begin

section \<open>MathProvider: the registry shared by the inputs and the keyboard\<close>

text \<open>
  The provider component (\<^verbatim>\<open>MathProvider\<close>) owns three pieces of mutable data:
  \<^item> the React state cell \<^verbatim>\<open>activeInputId\<close> (\<^verbatim>\<open>useState<string | null>(null)\<close>);
  \<^item> the ref \<^verbatim>\<open>activeInputIdRef\<close>, overwritten with the cell's value each time the
    component function runs (\<^verbatim>\<open>activeInputIdRef.current = activeInputId\<close>);
  \<^item> the ref \<^verbatim>\<open>inputCallbacksRef\<close>, a \<^verbatim>\<open>Map<string, InputUpdateCallback>\<close>.

  A callback is an opaque value of type \<open>'h\<close>; calling it is recorded as an effect.
  The state setter \<^verbatim>\<open>setActiveInputId\<close> does not run the component function: React
  queues the update (a value, or a function of the latest value) and applies the queue in
  order before the next render. The field \<open>activeInputId\<close> below is the cell with every
  queued update applied, which is what the updater \<^verbatim>\<open>(current) => ...\<close> receives and what
  the next render reads; \<open>activeInputIdRef\<close> is what the last render copied.
\<close>

record 'h MathProvider =
  activeInputId :: "string option"
  activeInputIdRef :: "string option"
  inputCallbacks :: "string \<rightharpoonup> 'h"

datatype 'h effect =
    ConsoleLog string string
  | ConsoleWarn string
  | Invoke 'h string

text \<open>\<^verbatim>\<open>const DEBUG = false\<close> and the helper \<^verbatim>\<open>log\<close> that prints only when it is set.\<close>

definition DEBUG :: bool where
  "DEBUG = False"

definition log :: "string \<Rightarrow> string \<Rightarrow> 'h effect list" where
  "log component action = (if DEBUG then [ConsoleLog component action] else [])"

text \<open>The state on mount: \<^verbatim>\<open>useState(null)\<close>, \<^verbatim>\<open>useRef(null)\<close>, \<^verbatim>\<open>useRef(new Map())\<close>.\<close>

definition initialProvider :: "'h MathProvider" where
  "initialProvider =
     \<lparr>activeInputId = None, activeInputIdRef = None, inputCallbacks = Map.empty\<rparr>"

text \<open>
  \<^verbatim>\<open>registerInput\<close>: \<^verbatim>\<open>inputCallbacksRef.current.set(id, updateCallback)\<close>.
  Its only other statement is a call of \<open>log\<close>.
\<close>

definition registerInput :: "string \<Rightarrow> 'h \<Rightarrow> 'h MathProvider \<Rightarrow> 'h MathProvider" where
  "registerInput i updateCallback s =
     s\<lparr>inputCallbacks := (inputCallbacks s)(i \<mapsto> updateCallback)\<rparr>"

text \<open>
  \<^verbatim>\<open>unregisterInput\<close>: \<^verbatim>\<open>inputCallbacksRef.current.delete(id)\<close>, then
  \<^verbatim>\<open>setActiveInputId((current) => (current === id ? null : current))\<close>.
\<close>

definition unregisterInput :: "string \<Rightarrow> 'h MathProvider \<Rightarrow> 'h MathProvider" where
  "unregisterInput i s =
     s\<lparr>inputCallbacks := (inputCallbacks s)(i := None),
       activeInputId := (if activeInputId s = Some i then None else activeInputId s)\<rparr>"

text \<open>\<^verbatim>\<open>setActiveInput\<close>: \<^verbatim>\<open>setActiveInputId(id)\<close>.\<close>

definition setActiveInput :: "string \<Rightarrow> 'h MathProvider \<Rightarrow> 'h MathProvider" where
  "setActiveInput i s = s\<lparr>activeInputId := Some i\<rparr>"

text \<open>
  A render of the provider: the component function runs again and executes
  \<^verbatim>\<open>activeInputIdRef.current = activeInputId\<close>.
\<close>

definition render :: "'h MathProvider \<Rightarrow> 'h MathProvider" where
  "render s = s\<lparr>activeInputIdRef := activeInputId s\<rparr>"

text \<open>
  JavaScript's \<^verbatim>\<open>!currentActiveId\<close> on a \<^verbatim>\<open>string | null\<close>: true for \<^verbatim>\<open>null\<close> and
  for the empty string.
\<close>

definition falsy :: "string option \<Rightarrow> bool" where
  "falsy v = (case v of None \<Rightarrow> True | Some str \<Rightarrow> str = [])"

text \<open>
  \<^verbatim>\<open>insertAtCursor\<close> reads the ref, never the state cell. It assigns to nothing, so the
  state it returns is the state it was given; the messages it prints and the callback
  it calls are returned in order.
\<close>

definition insertAtCursor :: "string \<Rightarrow> 'h MathProvider \<Rightarrow> 'h effect list \<times> 'h MathProvider" where
  "insertAtCursor latex s =
     (let currentActiveId = activeInputIdRef s in
      if falsy currentActiveId then
        (log ''MathProvider'' ''insertAtCursor called''
           @ log ''MathProvider'' ''WARNING: No active input to insert LaTeX into''
           @ [ConsoleWarn ''No active input to insert LaTeX into''], s)
      else
        (case inputCallbacks s (the currentActiveId) of
           Some updateCallback \<Rightarrow>
             (log ''MathProvider'' ''insertAtCursor called''
                @ log ''MathProvider'' ''Calling update callback for active input''
                @ [Invoke updateCallback latex], s)
         | None \<Rightarrow>
             (log ''MathProvider'' ''insertAtCursor called''
                @ log ''MathProvider'' ''ERROR: No callback found for activeInputId'', s)))"

text \<open>
  Calls reaching the provider, and their execution in order. \<open>Render\<close> is React running
  the component function between two calls.
\<close>

datatype 'h call =
    RegisterInput string 'h
  | UnregisterInput string
  | SetActiveInput string
  | InsertAtCursor string
  | Render

fun step :: "'h call \<Rightarrow> 'h MathProvider \<Rightarrow> 'h effect list \<times> 'h MathProvider" where
  "step (RegisterInput i cb) s = (log ''MathProvider'' ''registerInput'', registerInput i cb s)"
| "step (UnregisterInput i) s = (log ''MathProvider'' ''unregisterInput'', unregisterInput i s)"
| "step (SetActiveInput i) s = (log ''MathProvider'' ''setActiveInput'', setActiveInput i s)"
| "step (InsertAtCursor latex) s = insertAtCursor latex s"
| "step Render s = (log ''MathProvider'' ''rendering with contextValue'', render s)"

fun exec :: "'h call list \<Rightarrow> 'h MathProvider \<Rightarrow> 'h MathProvider" where
  "exec [] s = s"
| "exec (c # cs) s = exec cs (snd (step c s))"

fun effects :: "'h call list \<Rightarrow> 'h MathProvider \<Rightarrow> 'h effect list" where
  "effects [] s = []"
| "effects (c # cs) s = fst (step c s) @ effects cs (snd (step c s))"

text \<open>Which entry of the registry a call writes, if any.\<close>

fun registryTarget :: "'h call \<Rightarrow> string option" where
  "registryTarget (RegisterInput i cb) = Some i"
| "registryTarget (UnregisterInput i) = Some i"
| "registryTarget c = None"

fun isSetActive :: "'h call \<Rightarrow> bool" where
  "isSetActive (SetActiveInput i) = True"
| "isSetActive c = False"

text \<open>
  The state invariant "the active identifier, when there is one, has an entry in the
  registry", and the discipline "every \<^verbatim>\<open>setActiveInput(id)\<close> of a call sequence is
  made while \<open>id\<close> has an entry".
\<close>

definition activeRegistered :: "'h MathProvider \<Rightarrow> bool" where
  "activeRegistered s =
     (case activeInputId s of None \<Rightarrow> True | Some a \<Rightarrow> inputCallbacks s a \<noteq> None)"

fun focusOnRegistered :: "'h call list \<Rightarrow> 'h MathProvider \<Rightarrow> bool" where
  "focusOnRegistered [] s = True"
| "focusOnRegistered (SetActiveInput i # cs) s =
     (inputCallbacks s i \<noteq> None \<and> focusOnRegistered cs (setActiveInput i s))"
| "focusOnRegistered (c # cs) s = focusOnRegistered cs (snd (step c s))"

section \<open>MathKeyboard: button descriptors, layouts and the click handler\<close>

text \<open>
  \<^verbatim>\<open>ButtonConfig\<close> of \<^verbatim>\<open>types/index.ts\<close>. The fields \<^verbatim>\<open>display\<close>, \<^verbatim>\<open>style\<close>,
  \<^verbatim>\<open>size\<close> and \<^verbatim>\<open>description\<close> are read by the rendering code only and are left out;
  \<^verbatim>\<open>dualChar\<close> is optional.
\<close>

datatype buttonType = Symbol | Number | Operator | Function | Action | Letter | Variable

record dualChar =
  primary :: string
  primaryLatex :: string
  secondary :: string
  secondaryLatex :: string

record ButtonConfig =
  latex :: string
  type :: buttonType
  dualChar :: "dualChar option"

text \<open>The backslash of a LaTeX command, and the apostrophe, as characters.\<close>

definition backslash :: char where
  "backslash = CHR 0x5C"

definition apostrophe :: char where
  "apostrophe = CHR 0x27"

definition btn :: "string \<Rightarrow> buttonType \<Rightarrow> ButtonConfig" where
  "btn l t = \<lparr>latex = l, type = t, dualChar = None\<rparr>"

definition dual :: "string \<Rightarrow> buttonType \<Rightarrow> string \<Rightarrow> string \<Rightarrow> string \<Rightarrow> string \<Rightarrow> ButtonConfig" where
  "dual l t p pl sc scl =
     \<lparr>latex = l, type = t,
      dualChar = Some \<lparr>primary = p, primaryLatex = pl, secondary = sc, secondaryLatex = scl\<rparr>\<rparr>"

text \<open>The layouts of \<^verbatim>\<open>keyboardData.ts\<close>, row by row.\<close>

definition defaultLeftSection :: "ButtonConfig list list" where
  "defaultLeftSection =
     [[btn ''x'' Variable, btn ''y'' Variable, btn ''^{2}'' Operator, btn ''^{}'' Operator],
      [btn ''('' Symbol, btn '')'' Symbol, btn ''<'' Operator, btn ''>'' Operator],
      [btn ''||'' Operator, btn '','' Symbol, btn (backslash # ''leq '') Operator,
       btn (backslash # ''geq '') Operator],
      [btn ''ABC_MODE'' Action, btn ''SPEAK'' Action, btn (backslash # ''sqrt{}'') Function,
       btn (backslash # ''pi '') Symbol]]"

definition defaultMiddleSection :: "ButtonConfig list list" where
  "defaultMiddleSection =
     [[btn ''7'' Number, btn ''8'' Number, btn ''9'' Number, btn (backslash # ''div '') Operator],
      [btn ''4'' Number, btn ''5'' Number, btn ''6'' Number, btn (backslash # ''times '') Operator],
      [btn ''1'' Number, btn ''2'' Number, btn ''3'' Number, btn ''-'' Operator],
      [btn ''0'' Number, btn ''.'' Number, btn ''='' Operator, btn ''+'' Operator]]"

definition defaultRightSection :: "ButtonConfig list list" where
  "defaultRightSection =
     [[btn ''FUNCTIONS'' Action],
      [btn ''ARROW_LEFT'' Action, btn ''ARROW_RIGHT'' Action],
      [btn ''BACKSPACE'' Action],
      [btn ''ENTER'' Action]]"

definition abcKeyboardRows :: "ButtonConfig list list" where
  "abcKeyboardRows =
     [[btn ''q'' Letter, btn ''w'' Letter, btn ''e'' Letter, btn ''r'' Letter, btn ''t'' Letter,
       btn ''y'' Letter, btn ''u'' Letter, btn ''i'' Letter, btn ''o'' Letter, btn ''p'' Letter],
      [btn ''a'' Letter, btn ''s'' Letter, btn ''d'' Letter, btn ''f'' Letter, btn ''g'' Letter,
       btn ''h'' Letter, btn ''j'' Letter, btn ''k'' Letter, btn ''l'' Letter,
       btn (backslash # ''theta '') Symbol],
      [btn ''SHIFT'' Action, btn ''z'' Letter, btn ''x'' Letter, btn ''c'' Letter,
       btn ''v'' Letter, btn ''b'' Letter, btn ''n'' Letter, btn ''m'' Letter,
       btn ''BACKSPACE'' Action],
      [btn ''123_MODE'' Action, btn ''SUBSCRIPT'' Action,
       dual ''DUAL_EXCLAIM_PERCENT'' Symbol ''!'' ''!'' ''%'' ''%'',
       dual ''DUAL_BRACKETS'' Symbol ''['' ''['' '']'' '']'',
       dual ''DUAL_BRACES'' Symbol ''{'' (backslash # ''{'') ''}'' (backslash # ''}''),
       dual ''DUAL_TILDE_COLON'' Symbol ''~'' (backslash # ''sim '') '':'' '':'',
       dual ''DUAL_COMMA_QUOTE'' Symbol '','' '','' [apostrophe] [apostrophe],
       btn ''ENTER'' Action]]"

text \<open>
  \<^verbatim>\<open>String.prototype.toUpperCase\<close>, on the ASCII letters: the layouts apply it to the
  \<^verbatim>\<open>latex\<close> of letter buttons, which are single ASCII letters.
\<close>

definition upperChar :: "char \<Rightarrow> char" where
  "upperChar c =
     (case map_of (zip ''abcdefghijklmnopqrstuvwxyz'' ''ABCDEFGHIJKLMNOPQRSTUVWXYZ'') c of
        Some u \<Rightarrow> u
      | None \<Rightarrow> c)"

definition toUpperCase :: "string \<Rightarrow> string" where
  "toUpperCase str = map upperChar str"

text \<open>\<^verbatim>\<open>getUppercaseAbcKeyboard\<close>: the rows shown while shift is active.\<close>

definition shiftButton :: "ButtonConfig \<Rightarrow> ButtonConfig" where
  "shiftButton b =
     (if type b = Letter then b\<lparr>latex := toUpperCase (latex b)\<rparr>
      else if latex b = ''SUBSCRIPT'' then b\<lparr>latex := ''SUPERSCRIPT''\<rparr>
      else b)"

definition getUppercaseAbcKeyboard :: "ButtonConfig list list" where
  "getUppercaseAbcKeyboard = map (map shiftButton) abcKeyboardRows"

text \<open>
  The keyboard's own state: the four \<^verbatim>\<open>useState\<close> cells of \<^verbatim>\<open>MathKeyboard\<close>.
  \<^verbatim>\<open>handleButtonClick\<close> is rebuilt whenever \<^verbatim>\<open>isShiftActive\<close> changes; one click is
  handled per render, so the flag it reads is the current one.
\<close>

datatype KeyboardMode = DefaultMode | AbcMode

record MathKeyboard =
  isVisible :: bool
  keyboardMode :: KeyboardMode
  isShiftActive :: bool
  isFunctionsOpen :: bool

text \<open>The state on mount; \<^verbatim>\<open>defaultVisible\<close> is the prop of that name.\<close>

definition initialKeyboard :: "bool \<Rightarrow> MathKeyboard" where
  "initialKeyboard defaultVisible =
     \<lparr>isVisible = defaultVisible, keyboardMode = DefaultMode, isShiftActive = False,
      isFunctionsOpen = False\<rparr>"

text \<open>
  \<^verbatim>\<open>if (mathContext) mathContext.insertAtCursor(l)\<close>: the list of strings passed to
  \<^verbatim>\<open>insertAtCursor\<close>, empty when the keyboard is rendered outside a provider.
\<close>

definition send :: "bool \<Rightarrow> string \<Rightarrow> string list" where
  "send hasContext l = (if hasContext then [l] else [])"

text \<open>
  \<^verbatim>\<open>handleButtonClick\<close>. The result is the list of strings passed to the provider's
  \<^verbatim>\<open>insertAtCursor\<close> and the keyboard state after the click. The dual-character branch
  comes first and returns; the \<^verbatim>\<open>switch\<close> on \<^verbatim>\<open>button.latex\<close> follows, each case
  returning; the default falls through to the insertion and the shift reset.
\<close>

definition handleButtonClick ::
    "bool \<Rightarrow> ButtonConfig \<Rightarrow> MathKeyboard \<Rightarrow> string list \<times> MathKeyboard" where
  "handleButtonClick hasContext button k =
     (case dualChar button of
        Some d \<Rightarrow>
          (let activeLatex = (if isShiftActive k then secondaryLatex d else primaryLatex d) in
           if activeLatex = ''SUBSCRIPT'' then (send hasContext ''SUBSCRIPT_BLOCK'', k)
           else if activeLatex = ''SUPERSCRIPT'' then (send hasContext ''SUPERSCRIPT_BLOCK'', k)
           else (send hasContext activeLatex, k))
      | None \<Rightarrow>
          if latex button = ''ABC_MODE'' then
            ([], k\<lparr>keyboardMode := AbcMode, isFunctionsOpen := False\<rparr>)
          else if latex button = ''123_MODE'' then
            ([], k\<lparr>keyboardMode := DefaultMode, isShiftActive := False\<rparr>)
          else if latex button = ''SHIFT'' then
            ([], k\<lparr>isShiftActive := \<not> isShiftActive k\<rparr>)
          else if latex button = ''SUBSCRIPT'' then (send hasContext ''SUBSCRIPT_BLOCK'', k)
          else if latex button = ''SUPERSCRIPT'' then (send hasContext ''SUPERSCRIPT_BLOCK'', k)
          else if latex button = ''FUNCTIONS'' then
            ([], k\<lparr>isFunctionsOpen := \<not> isFunctionsOpen k\<rparr>)
          else if latex button = ''SPEAK'' then ([], k)
          else if latex button = ''ARROW_LEFT'' then (send hasContext ''ARROW_LEFT'', k)
          else if latex button = ''ARROW_RIGHT'' then (send hasContext ''ARROW_RIGHT'', k)
          else if latex button = ''BACKSPACE'' then (send hasContext ''BACKSPACE'', k)
          else if latex button = ''ENTER'' then (send hasContext ''ENTER'', k)
          else
            (send hasContext (latex button),
             if type button = Letter \<and> isShiftActive k then k\<lparr>isShiftActive := False\<rparr> else k))"

text \<open>The \<^verbatim>\<open>case\<close> labels of the \<^verbatim>\<open>switch\<close>, and the four of them that only change keyboard state.\<close>

definition switchLabels :: "string list" where
  "switchLabels =
     [''ABC_MODE'', ''123_MODE'', ''SHIFT'', ''SUBSCRIPT'', ''SUPERSCRIPT'', ''FUNCTIONS'',
      ''SPEAK'', ''ARROW_LEFT'', ''ARROW_RIGHT'', ''BACKSPACE'', ''ENTER'']"

definition toggleLabels :: "string list" where
  "toggleLabels = [''ABC_MODE'', ''123_MODE'', ''SHIFT'', ''FUNCTIONS'']"

text \<open>Every button of the default layout, and every button of the letters layout in both shift states.\<close>

definition defaultButtons :: "ButtonConfig list" where
  "defaultButtons = concat defaultLeftSection @ concat defaultMiddleSection @ concat defaultRightSection"

definition abcButtons :: "ButtonConfig list" where
  "abcButtons = concat abcKeyboardRows @ concat getUppercaseAbcKeyboard"

section \<open>MathInput: the mount effects and the handler it registers\<close>

text \<open>
  What the surroundings give a \<^verbatim>\<open>MathInput\<close> on mount. \<^verbatim>\<open>getMQ\<close> returns
  \<^verbatim>\<open>null\<close> when \<^verbatim>\<open>window.MathQuill\<close> is missing; otherwise the call
  \<^verbatim>\<open>MQ.MathField(containerRef.current, config)\<close> either returns a field or throws.
  A thrown value is an \<^verbatim>\<open>Error\<close> instance or something else
  (\<^verbatim>\<open>error instanceof Error\<close>).
\<close>

datatype thrown = ErrorObject string | OtherValue string

datatype construction = Constructed | Throws thrown

datatype mathquill = NotLoaded | Loaded construction

text \<open>
  The props the effects read. \<open>controlledValue\<close> and \<open>idProp\<close> are the props
  \<^verbatim>\<open>value\<close> and \<^verbatim>\<open>id\<close>; \<open>onError\<close> says whether the callback was supplied.
\<close>

record MathInputProps =
  controlledValue :: "string option"
  defaultValue :: string
  idProp :: "string option"
  disabled :: bool
  readOnly :: bool
  autoFocus :: bool
  onError :: bool

datatype inputEffect =
    ConsoleError string
  | OnError thrown
  | FieldSetLatex string
  | AddFocusListeners
  | FieldFocus
  | SetInteractive bool
  | ProviderRegister string

text \<open>
  \<^verbatim>\<open>id || `math-input-${...}`\<close>: the prop unless it is missing or empty; \<open>generated\<close>
  is the identifier built from \<^verbatim>\<open>Math.random()\<close>.
\<close>

definition inputId :: "MathInputProps \<Rightarrow> string \<Rightarrow> string" where
  "inputId props generated =
     (case idProp props of
        None \<Rightarrow> generated
      | Some i \<Rightarrow> if i = [] then generated else i)"

text \<open>\<^verbatim>\<open>latex = isControlled ? controlledValue : uncontrolledValue\<close>, on mount.\<close>

definition initialLatex :: "MathInputProps \<Rightarrow> string" where
  "initialLatex props =
     (case controlledValue props of None \<Rightarrow> defaultValue props | Some v \<Rightarrow> v)"

definition isError :: "thrown \<Rightarrow> bool" where
  "isError e = (case e of ErrorObject m \<Rightarrow> True | OtherValue v \<Rightarrow> False)"

text \<open>
  The effect "Initialize MathQuill on mount". The second component is whether
  \<^verbatim>\<open>mathFieldRef.current\<close> holds a field afterwards.
\<close>

fun initEffect :: "MathInputProps \<Rightarrow> mathquill \<Rightarrow> inputEffect list \<times> bool" where
  "initEffect props NotLoaded =
     ([ConsoleError ''MathQuill is not loaded. Make sure to include MathQuill script in your HTML.''],
      False)"
| "initEffect props (Loaded Constructed) =
     ([FieldSetLatex (initialLatex props), AddFocusListeners]
        @ (if autoFocus props then [FieldFocus] else []),
      True)"
| "initEffect props (Loaded (Throws e)) =
     ((if onError props \<and> isError e then [OnError e] else [])
        @ [ConsoleError ''Failed to initialize MathQuill:''],
      False)"

text \<open>
  The effect "Update MathQuill when controlled value changes externally";
  \<open>reported\<close> is what \<^verbatim>\<open>mathFieldRef.current.latex()\<close> returns.
\<close>

definition syncEffect :: "MathInputProps \<Rightarrow> bool \<Rightarrow> string \<Rightarrow> inputEffect list" where
  "syncEffect props fieldPresent reported =
     (case controlledValue props of
        None \<Rightarrow> []
      | Some v \<Rightarrow> if fieldPresent \<and> reported \<noteq> v then [FieldSetLatex v] else [])"

text \<open>
  The effect "Register with provider on mount": it reads the context and the identifier
  only, not \<^verbatim>\<open>mathFieldRef\<close>.
\<close>

definition registrationEffect :: "MathInputProps \<Rightarrow> bool \<Rightarrow> string \<Rightarrow> inputEffect list" where
  "registrationEffect props hasContext generated =
     (if hasContext then [ProviderRegister (inputId props generated)] else [])"

text \<open>The effect "Update disabled/readonly state".\<close>

definition disabledEffect :: "MathInputProps \<Rightarrow> bool \<Rightarrow> inputEffect list" where
  "disabledEffect props fieldPresent =
     (if fieldPresent then [SetInteractive (\<not> (disabled props \<or> readOnly props))] else [])"

text \<open>The effects of a mount, in the order the component declares them.\<close>

definition mount ::
    "MathInputProps \<Rightarrow> mathquill \<Rightarrow> bool \<Rightarrow> string \<Rightarrow> string \<Rightarrow> inputEffect list \<times> bool" where
  "mount props mq hasContext generated reported =
     (let (es, fieldPresent) = initEffect props mq in
      (es @ syncEffect props fieldPresent reported
          @ registrationEffect props hasContext generated
          @ disabledEffect props fieldPresent,
       fieldPresent))"

text \<open>
  The rendered element carries the class \<^verbatim>\<open>mathex-input--disabled\<close> exactly when the
  \<^verbatim>\<open>disabled\<close> prop is set.
\<close>

definition rendersDisabled :: "MathInputProps \<Rightarrow> bool" where
  "rendersDisabled props = disabled props"

text \<open>\<^verbatim>\<open>handleKeyboardInsertion\<close>, the callback handed to \<^verbatim>\<open>registerInput\<close>.\<close>

datatype fieldOp = Keystroke string | Blur | Cmd string | Focus | Write string

definition handleKeyboardInsertion :: "bool \<Rightarrow> string \<Rightarrow> fieldOp list" where
  "handleKeyboardInsertion fieldPresent insertedLatex =
     (if \<not> fieldPresent then []
      else if insertedLatex = ''BACKSPACE'' then [Keystroke ''Backspace'']
      else if insertedLatex = ''ARROW_LEFT'' then [Keystroke ''Left'']
      else if insertedLatex = ''ARROW_RIGHT'' then [Keystroke ''Right'']
      else if insertedLatex = ''ENTER'' then [Blur]
      else if insertedLatex = ''SUBSCRIPT_BLOCK'' then [Cmd ''_'', Focus]
      else if insertedLatex = ''SUPERSCRIPT_BLOCK'' then [Cmd ''^'', Focus]
      else [Write insertedLatex, Focus])"

section \<open>Properties of the provider\<close>

lemma exec_append: "exec (xs @ ys) s = exec ys (exec xs s)"
  by (induction xs arbitrary: s) simp_all

lemma step_callbacks_other:
  "registryTarget c \<noteq> Some i \<Longrightarrow> inputCallbacks (snd (step c s)) i = inputCallbacks s i"
  by (cases c)
     (simp_all add: registerInput_def unregisterInput_def setActiveInput_def render_def
        insertAtCursor_def Let_def split: option.splits)

lemma log_silent: "log component action = []"
  by (simp add: log_def DEBUG_def)

lemma exec_snoc: "exec (cs @ [c]) s = snd (step c (exec cs s))"
  by (simp add: exec_append)

text \<open>
  Splitting a call sequence at an occurrence of \<open>x\<close> that is followed only by calls
  satisfying \<open>keep\<close>: what appending one more call does to such a split.
\<close>

lemma last_such_snoc:
  "(\<exists>pre post. cs @ [c] = pre @ x # post \<and> (\<forall>d \<in> set post. keep d)) \<longleftrightarrow>
     c = x \<or> (keep c \<and> (\<exists>pre post. cs = pre @ x # post \<and> (\<forall>d \<in> set post. keep d)))"
  (is "?L \<longleftrightarrow> ?R")
proof
  assume ?L
  then obtain pre post where eq: "cs @ [c] = pre @ x # post"
    and later: "\<forall>d \<in> set post. keep d"
    by blast
  show ?R
  proof (cases post rule: rev_cases)
    case Nil
    with eq show ?thesis by simp
  next
    case (snoc post' y)
    with eq have "y = c" and "cs = pre @ x # post'" by simp_all
    moreover from snoc later have "keep y" and "\<forall>d \<in> set post'. keep d" by simp_all
    ultimately show ?thesis by blast
  qed
next
  assume ?R
  then show ?L
  proof
    assume "c = x"
    then have "cs @ [c] = cs @ x # []" by simp
    then show ?thesis by fastforce
  next
    assume a: "keep c \<and> (\<exists>pre post. cs = pre @ x # post \<and> (\<forall>d \<in> set post. keep d))"
    then obtain pre post where "cs = pre @ x # post" and "\<forall>d \<in> set post. keep d"
      by blast
    with a have "cs @ [c] = pre @ x # (post @ [c])" and "\<forall>d \<in> set (post @ [c]). keep d"
      by simp_all
    then show ?thesis by blast
  qed
qed

lemma callbacks_exec_general:
  "inputCallbacks (exec cs s) i = Some h \<longleftrightarrow>
     (\<exists>pre post. cs = pre @ RegisterInput i h # post \<and> (\<forall>c \<in> set post. registryTarget c \<noteq> Some i))
     \<or> ((\<forall>c \<in> set cs. registryTarget c \<noteq> Some i) \<and> inputCallbacks s i = Some h)"
proof (induction cs rule: rev_induct)
  case Nil
  show ?case by simp
next
  case (snoc c cs)
  show ?case
  proof (cases "registryTarget c = Some i")
    case False
    then show ?thesis
      using snoc
      by (simp add: exec_snoc step_callbacks_other last_such_snoc [where keep = "\<lambda>c. registryTarget c \<noteq> Some i"])
         auto
  next
    case True
    then show ?thesis
      by (cases c)
         (auto simp add: exec_snoc last_such_snoc [where keep = "\<lambda>c. registryTarget c \<noteq> Some i"]
            registerInput_def unregisterInput_def)
  qed
qed

lemma step_active_other:
  "\<not> isSetActive c \<Longrightarrow> c \<noteq> UnregisterInput a \<Longrightarrow>
     activeInputId (snd (step c s)) = Some a \<longleftrightarrow> activeInputId s = Some a"
  by (cases c)
     (auto simp add: registerInput_def unregisterInput_def render_def insertAtCursor_def Let_def
        split: option.splits)

lemma active_exec_general:
  "activeInputId (exec cs s) = Some a \<longleftrightarrow>
     (\<exists>pre post. cs = pre @ SetActiveInput a # post
        \<and> (\<forall>c \<in> set post. \<not> isSetActive c \<and> c \<noteq> UnregisterInput a))
     \<or> ((\<forall>c \<in> set cs. \<not> isSetActive c \<and> c \<noteq> UnregisterInput a) \<and> activeInputId s = Some a)"
proof (induction cs rule: rev_induct)
  case Nil
  show ?case by simp
next
  case (snoc c cs)
  show ?case
  proof (cases "\<not> isSetActive c \<and> c \<noteq> UnregisterInput a")
    case True
    then show ?thesis
      using snoc
      by (simp add: exec_snoc step_active_other
            last_such_snoc [where keep = "\<lambda>c. \<not> isSetActive c \<and> c \<noteq> UnregisterInput a"])
         auto
  next
    case False
    then show ?thesis
      by (cases c)
         (auto simp add: exec_snoc setActiveInput_def unregisterInput_def
            last_such_snoc [where keep = "\<lambda>c. \<not> isSetActive c \<and> c \<noteq> UnregisterInput a"])
  qed
qed

subsection \<open>Registration\<close>

text \<open>
  Claim C7. \<^verbatim>\<open>registerInput(id, handler)\<close> writes the registry entry of \<open>id\<close> and
  nothing else: the active identifier (state cell and ref) is unchanged, the entry of
  \<open>id\<close> is the handler just given, every other entry is unchanged, registering the
  same pair twice equals registering it once, and of two registrations of one
  identifier the second wins.
\<close>

theorem registerInput_frame:
  "activeInputId (registerInput i h s) = activeInputId s
   \<and> activeInputIdRef (registerInput i h s) = activeInputIdRef s
   \<and> inputCallbacks (registerInput i h s) i = Some h
   \<and> (\<forall>j. j \<noteq> i \<longrightarrow> inputCallbacks (registerInput i h s) j = inputCallbacks s j)
   \<and> registerInput i h (registerInput i h s) = registerInput i h s
   \<and> registerInput i h' (registerInput i h s) = registerInput i h' s"
  by (simp add: registerInput_def)

theorem registerInput_frame_witness:
  "activeInputId (registerInput ''a'' ''h2'' (registerInput ''b'' ''h1'' initialProvider)) = None
   \<and> inputCallbacks (registerInput ''a'' ''h2'' (registerInput ''b'' ''h1'' initialProvider)) ''b''
       = Some ''h1''"
  using registerInput_frame [of "''a''" "''h2''" "registerInput ''b'' ''h1'' initialProvider"]
  by (simp add: registerInput_def initialProvider_def)

text \<open>
  Claim C3. After any sequence of calls starting from the mounted provider, the registry
  binds \<open>i\<close> to \<open>h\<close> exactly when the sequence contains a \<^verbatim>\<open>registerInput(i, h)\<close>
  that no later \<^verbatim>\<open>registerInput\<close> or \<^verbatim>\<open>unregisterInput\<close> of \<open>i\<close> follows: the
  entries are those registered and not unregistered since, each with its last handler.
  A call that does not target \<open>i\<close> leaves the entry of \<open>i\<close> as it was, and
  \<^verbatim>\<open>unregisterInput\<close> of an identifier without an entry leaves the registry as it was.
\<close>

theorem registry_tracks_calls:
  "(inputCallbacks (exec cs initialProvider) i = Some h \<longleftrightarrow>
      (\<exists>pre post. cs = pre @ RegisterInput i h # post
         \<and> (\<forall>c \<in> set post. registryTarget c \<noteq> Some i)))
   \<and> (registryTarget c \<noteq> Some i \<longrightarrow> inputCallbacks (snd (step c s)) i = inputCallbacks s i)
   \<and> (inputCallbacks s i = None \<longrightarrow> inputCallbacks (unregisterInput i s) = inputCallbacks s)"
proof (intro conjI impI)
  show "inputCallbacks (exec cs initialProvider) i = Some h \<longleftrightarrow>
      (\<exists>pre post. cs = pre @ RegisterInput i h # post
         \<and> (\<forall>c \<in> set post. registryTarget c \<noteq> Some i))"
    unfolding callbacks_exec_general [of cs initialProvider i h]
    by (simp add: initialProvider_def)
next
  assume "registryTarget c \<noteq> Some i"
  then show "inputCallbacks (snd (step c s)) i = inputCallbacks s i"
    by (rule step_callbacks_other)
next
  assume "inputCallbacks s i = None"
  then show "inputCallbacks (unregisterInput i s) = inputCallbacks s"
    by (auto simp add: unregisterInput_def)
qed

theorem registry_tracks_calls_witness:
  "\<exists>pre post.
     [RegisterInput ''a'' ''h1'', RegisterInput ''b'' ''h2'', UnregisterInput ''a'',
      RegisterInput ''b'' ''h3'', UnregisterInput ''c''] = pre @ RegisterInput ''b'' ''h3'' # post
     \<and> (\<forall>c \<in> set post. registryTarget c \<noteq> Some ''b'')"
proof -
  have "inputCallbacks
          (exec [RegisterInput ''a'' ''h1'', RegisterInput ''b'' ''h2'', UnregisterInput ''a'',
                 RegisterInput ''b'' ''h3'', UnregisterInput ''c''] initialProvider) ''b''
        = Some ''h3''"
    by (simp add: registerInput_def unregisterInput_def initialProvider_def)
  then show ?thesis
    using registry_tracks_calls
      [of "[RegisterInput ''a'' ''h1'', RegisterInput ''b'' ''h2'', UnregisterInput ''a'',
            RegisterInput ''b'' ''h3'', UnregisterInput ''c'']" "''b''" "''h3''"]
    by blast
qed

subsection \<open>The active identifier\<close>

text \<open>
  Claim C2. After any sequence of calls starting from the mounted provider, the state
  cell \<^verbatim>\<open>activeInputId\<close> holds \<open>a\<close> exactly when the sequence contains a
  \<^verbatim>\<open>setActiveInput(a)\<close> followed by no other \<^verbatim>\<open>setActiveInput\<close> and no
  \<^verbatim>\<open>unregisterInput(a)\<close>. Unregistering the active identifier empties the cell;
  unregistering any other identifier leaves the cell as it was.
\<close>

theorem active_id_tracks_last_focus:
  "(activeInputId (exec cs initialProvider) = Some a \<longleftrightarrow>
      (\<exists>pre post. cs = pre @ SetActiveInput a # post
         \<and> (\<forall>c \<in> set post. \<not> isSetActive c \<and> c \<noteq> UnregisterInput a)))
   \<and> (activeInputId s = Some i \<longrightarrow> activeInputId (unregisterInput i s) = None)
   \<and> (activeInputId s \<noteq> Some i \<longrightarrow> activeInputId (unregisterInput i s) = activeInputId s)"
proof (intro conjI impI)
  show "activeInputId (exec cs initialProvider) = Some a \<longleftrightarrow>
      (\<exists>pre post. cs = pre @ SetActiveInput a # post
         \<and> (\<forall>c \<in> set post. \<not> isSetActive c \<and> c \<noteq> UnregisterInput a))"
    unfolding active_exec_general [of cs initialProvider a]
    by (simp add: initialProvider_def)
qed (simp_all add: unregisterInput_def)

theorem active_id_tracks_last_focus_witness:
  "\<exists>pre post.
     [SetActiveInput ''a'', UnregisterInput ''a'', SetActiveInput ''b'', UnregisterInput ''a'']
       = pre @ SetActiveInput ''b'' # post
     \<and> (\<forall>c \<in> set post. \<not> isSetActive c \<and> c \<noteq> (UnregisterInput ''b'' :: string call))"
proof -
  have "activeInputId
          (exec [SetActiveInput ''a'', UnregisterInput ''a'', SetActiveInput ''b'',
                 UnregisterInput ''a''] (initialProvider :: string MathProvider))
        = Some ''b''"
    by (simp add: setActiveInput_def unregisterInput_def initialProvider_def)
  then show ?thesis
    using active_id_tracks_last_focus
      [of "[SetActiveInput ''a'', UnregisterInput ''a'', SetActiveInput ''b'',
            UnregisterInput ''a'']" "''b''"]
    by blast
qed

lemma step_activeRegistered:
  "activeRegistered s \<Longrightarrow> focusOnRegistered (c # cs) s \<Longrightarrow>
     activeRegistered (snd (step c s)) \<and> focusOnRegistered cs (snd (step c s))"
  by (cases c)
     (auto simp add: activeRegistered_def registerInput_def unregisterInput_def
        setActiveInput_def render_def insertAtCursor_def Let_def split: option.splits)

lemma exec_activeRegistered:
  "activeRegistered s \<Longrightarrow> focusOnRegistered cs s \<Longrightarrow> activeRegistered (exec cs s)"
proof (induction cs arbitrary: s)
  case Nil
  then show ?case by simp
next
  case (Cons c cs)
  from step_activeRegistered [OF Cons.prems]
  have "activeRegistered (snd (step c s))" and "focusOnRegistered cs (snd (step c s))"
    by simp_all
  then have "activeRegistered (exec cs (snd (step c s)))" by (rule Cons.IH)
  then show ?case by simp
qed

text \<open>
  Claim C5, amended. \<^verbatim>\<open>setActiveInput\<close> stores its argument without looking at the
  registry, so the invariant "the active identifier is absent or has a registry entry"
  needs the callers' discipline: if it holds in a state and every \<^verbatim>\<open>setActiveInput(id)\<close>
  of a call sequence is made while \<open>id\<close> has an entry, it holds after the sequence.
  Whatever the state, after \<^verbatim>\<open>unregisterInput(i)\<close> the active identifier is not \<open>i\<close>
  and \<open>i\<close> has no entry.
\<close>

theorem active_registered_under_focus_discipline:
  "(activeRegistered s \<and> focusOnRegistered cs s \<longrightarrow> activeRegistered (exec cs s))
   \<and> activeInputId (unregisterInput i s) \<noteq> Some i
   \<and> inputCallbacks (unregisterInput i s) i = None"
  by (simp add: exec_activeRegistered unregisterInput_def)

theorem active_registered_under_focus_discipline_witness:
  "activeRegistered
     (exec [RegisterInput ''a'' ''h1'', SetActiveInput ''a'', Render, RegisterInput ''b'' ''h2'',
            UnregisterInput ''a'', InsertAtCursor ''x''] initialProvider)"
proof -
  have "activeRegistered (initialProvider :: string MathProvider)"
    by (simp add: activeRegistered_def initialProvider_def)
  moreover have
    "focusOnRegistered [RegisterInput ''a'' ''h1'', SetActiveInput ''a'', Render,
       RegisterInput ''b'' ''h2'', UnregisterInput ''a'', InsertAtCursor ''x''] initialProvider"
    by (simp add: registerInput_def initialProvider_def)
  ultimately show ?thesis
    using active_registered_under_focus_discipline
      [of initialProvider "[RegisterInput ''a'' ''h1'', SetActiveInput ''a'', Render,
         RegisterInput ''b'' ''h2'', UnregisterInput ''a'', InsertAtCursor ''x'']"]
    by blast
qed

text \<open>
  Claim C5 as stated fails: on the freshly mounted provider, \<^verbatim>\<open>setActiveInput("a")\<close>
  makes \<^verbatim>\<open>"a"\<close> the active identifier although it has no registry entry.
\<close>

theorem active_unregistered_counterexample:
  "activeInputId (exec [SetActiveInput ''a''] (initialProvider :: string MathProvider)) = Some ''a''
   \<and> inputCallbacks (exec [SetActiveInput ''a''] (initialProvider :: string MathProvider)) ''a'' = None"
  by (simp add: setActiveInput_def initialProvider_def)

subsection \<open>Dispatch\<close>

lemma step_ref_other:
  "c \<noteq> Render \<Longrightarrow> activeInputIdRef (snd (step c s)) = activeInputIdRef s"
  by (cases c)
     (auto simp add: registerInput_def unregisterInput_def setActiveInput_def
        insertAtCursor_def Let_def split: option.splits)

lemma ref_after_render:
  "Render \<in> set cs \<Longrightarrow> \<forall>c \<in> set cs. \<not> isSetActive c \<and> c \<noteq> UnregisterInput a \<Longrightarrow>
     activeInputId s = Some a \<Longrightarrow> activeInputIdRef (exec cs s) = Some a"
proof (induction cs rule: rev_induct)
  case Nil
  then show ?case by simp
next
  case (snoc c cs)
  from snoc.prems have keep: "\<forall>c \<in> set cs. \<not> isSetActive c \<and> c \<noteq> UnregisterInput a"
    by simp
  with snoc.prems have cell: "activeInputId (exec cs s) = Some a"
    using active_exec_general [of cs s a] by blast
  show ?case
  proof (cases "c = Render")
    case True
    with cell show ?thesis by (simp add: exec_snoc render_def)
  next
    case False
    with snoc.prems have "Render \<in> set cs" by simp
    with snoc.IH keep snoc.prems have "activeInputIdRef (exec cs s) = Some a" by blast
    with False show ?thesis by (simp add: exec_snoc step_ref_other)
  qed
qed

lemma insertAtCursor_hit:
  "activeInputIdRef s = Some a \<Longrightarrow> a \<noteq> [] \<Longrightarrow> inputCallbacks s a = Some h \<Longrightarrow>
     insertAtCursor cmd s = ([Invoke h cmd], s)"
  by (simp add: insertAtCursor_def Let_def falsy_def log_silent)

lemma ref_without_render:
  "Render \<notin> set cs \<Longrightarrow> activeInputIdRef (exec cs s) = activeInputIdRef s"
proof (induction cs arbitrary: s)
  case Nil
  show ?case by simp
next
  case (Cons c cs)
  then have "c \<noteq> Render" and "Render \<notin> set cs" by auto
  then show ?case by (simp add: Cons.IH step_ref_other)
qed

lemma ref_since_last_render:
  "Render \<notin> set post \<Longrightarrow>
     activeInputIdRef (exec (pre @ Render # post) s) = activeInputId (exec pre s)"
  by (simp add: exec_append ref_without_render render_def)

text \<open>
  Claim C1, amended. Let \<^verbatim>\<open>setActiveInput(A)\<close> be the most recent activation, with
  \<open>A\<close> a non-empty identifier that has not been unregistered since, and let the provider
  have rendered at least once after that call. If \<open>A\<close> is then bound to the handler
  \<open>hA\<close>, \<^verbatim>\<open>insertAtCursor(cmd)\<close> calls \<open>hA\<close> with \<open>cmd\<close> once, calls nothing else,
  prints nothing and leaves the provider's state as it was.
  Until the provider renders again, \<^verbatim>\<open>insertAtCursor\<close> keeps routing by the identifier
  that was active at the last render, whatever calls were made since: the ref it reads
  is that identifier; if it is a non-empty identifier \<open>B\<close> now bound to \<open>hB\<close>, the call
  invokes \<open>hB\<close> with \<open>cmd\<close> once and nothing else; if no identifier was active at that
  render, the call only prints the warning.
\<close>

theorem dispatch_routes_after_render:
  "(cs = pre @ SetActiveInput A # post
      \<and> (\<forall>c \<in> set post. \<not> isSetActive c \<and> c \<noteq> UnregisterInput A)
      \<and> Render \<in> set post \<and> A \<noteq> [] \<and> inputCallbacks (exec cs s) A = Some hA
      \<longrightarrow> insertAtCursor cmd (exec cs s) = ([Invoke hA cmd], exec cs s))
   \<and> (Render \<notin> set post' \<longrightarrow>
        activeInputIdRef (exec (pre' @ Render # post') s) = activeInputId (exec pre' s))
   \<and> (Render \<notin> set post' \<and> activeInputId (exec pre' s) = Some B \<and> B \<noteq> []
        \<and> inputCallbacks (exec (pre' @ Render # post') s) B = Some hB
      \<longrightarrow> insertAtCursor cmd (exec (pre' @ Render # post') s)
            = ([Invoke hB cmd], exec (pre' @ Render # post') s))
   \<and> (Render \<notin> set post' \<and> activeInputId (exec pre' s) = None
      \<longrightarrow> insertAtCursor cmd (exec (pre' @ Render # post') s)
            = ([ConsoleWarn ''No active input to insert LaTeX into''],
               exec (pre' @ Render # post') s))"
proof (intro conjI impI)
  assume a: "cs = pre @ SetActiveInput A # post
      \<and> (\<forall>c \<in> set post. \<not> isSetActive c \<and> c \<noteq> UnregisterInput A)
      \<and> Render \<in> set post \<and> A \<noteq> [] \<and> inputCallbacks (exec cs s) A = Some hA"
  then have "exec cs s = exec post (setActiveInput A (exec pre s))"
    by (simp add: exec_append)
  moreover have "activeInputId (setActiveInput A (exec pre s)) = Some A"
    by (simp add: setActiveInput_def)
  ultimately have "activeInputIdRef (exec cs s) = Some A"
    using a ref_after_render [of post A "setActiveInput A (exec pre s)"] by simp
  moreover from a have "A \<noteq> []" and "inputCallbacks (exec cs s) A = Some hA"
    by blast+
  ultimately show "insertAtCursor cmd (exec cs s) = ([Invoke hA cmd], exec cs s)"
    by (rule insertAtCursor_hit)
next
  assume "Render \<notin> set post'"
  then show "activeInputIdRef (exec (pre' @ Render # post') s) = activeInputId (exec pre' s)"
    by (rule ref_since_last_render)
next
  assume b: "Render \<notin> set post' \<and> activeInputId (exec pre' s) = Some B \<and> B \<noteq> []
        \<and> inputCallbacks (exec (pre' @ Render # post') s) B = Some hB"
  then have "activeInputIdRef (exec (pre' @ Render # post') s) = Some B"
    using ref_since_last_render [of post' pre' s] by simp
  moreover from b have "B \<noteq> []"
    and "inputCallbacks (exec (pre' @ Render # post') s) B = Some hB"
    by blast+
  ultimately show "insertAtCursor cmd (exec (pre' @ Render # post') s)
            = ([Invoke hB cmd], exec (pre' @ Render # post') s)"
    by (rule insertAtCursor_hit)
next
  assume c: "Render \<notin> set post' \<and> activeInputId (exec pre' s) = None"
  then have "activeInputIdRef (exec (pre' @ Render # post') s) = None"
    using ref_since_last_render [of post' pre' s] by simp
  then show "insertAtCursor cmd (exec (pre' @ Render # post') s)
            = ([ConsoleWarn ''No active input to insert LaTeX into''],
               exec (pre' @ Render # post') s)"
    by (simp add: insertAtCursor_def Let_def falsy_def log_silent)
qed

theorem dispatch_routes_after_render_witness:
  "insertAtCursor ''x''
     (exec [RegisterInput ''A'' ''handlerA'', RegisterInput ''B'' ''handlerB'',
            SetActiveInput ''B'', Render, SetActiveInput ''A'', Render] initialProvider)
   = ([Invoke ''handlerA'' ''x''],
      exec [RegisterInput ''A'' ''handlerA'', RegisterInput ''B'' ''handlerB'',
            SetActiveInput ''B'', Render, SetActiveInput ''A'', Render] initialProvider)
   \<and> insertAtCursor ''x''
     (exec ([RegisterInput ''A'' ''handlerA'', RegisterInput ''B'' ''handlerB'',
             SetActiveInput ''B''] @ Render # [SetActiveInput ''A'']) initialProvider)
   = ([Invoke ''handlerB'' ''x''],
      exec ([RegisterInput ''A'' ''handlerA'', RegisterInput ''B'' ''handlerB'',
             SetActiveInput ''B''] @ Render # [SetActiveInput ''A'']) initialProvider)"
proof -
  let ?pre = "[RegisterInput ''A'' ''handlerA'', RegisterInput ''B'' ''handlerB'',
               SetActiveInput ''B'', Render]"
  let ?cs = "[RegisterInput ''A'' ''handlerA'', RegisterInput ''B'' ''handlerB'',
              SetActiveInput ''B'', Render, SetActiveInput ''A'', Render]"
  let ?pre' = "[RegisterInput ''A'' ''handlerA'', RegisterInput ''B'' ''handlerB'',
                SetActiveInput ''B'']"
  have h1: "?cs = ?pre @ SetActiveInput ''A'' # [Render :: string call]
      \<and> (\<forall>c \<in> set [Render :: string call]. \<not> isSetActive c \<and> c \<noteq> UnregisterInput ''A'')
      \<and> (Render :: string call) \<in> set [Render] \<and> ''A'' \<noteq> []
      \<and> inputCallbacks (exec ?cs initialProvider) ''A'' = Some ''handlerA''"
    by (simp add: registerInput_def setActiveInput_def render_def initialProvider_def)
  have h2: "(Render :: string call) \<notin> set [SetActiveInput ''A'']
      \<and> activeInputId (exec ?pre' initialProvider) = Some ''B'' \<and> ''B'' \<noteq> []
      \<and> inputCallbacks (exec (?pre' @ Render # [SetActiveInput ''A'']) initialProvider) ''B''
          = Some ''handlerB''"
    by (simp add: registerInput_def setActiveInput_def render_def initialProvider_def)
  from h1 h2
    dispatch_routes_after_render
      [of ?cs ?pre "''A''" "[Render]" initialProvider "''handlerA''" "''x''"
          "[SetActiveInput ''A'']" ?pre' "''B''" "''handlerB''"]
  show ?thesis
    by blast
qed

text \<open>
  Claim C1 as stated fails in two ways. \<^verbatim>\<open>insertAtCursor\<close> reads the ref, which only a
  render refreshes: with A and B registered and B active, \<^verbatim>\<open>setActiveInput("A")\<close>
  followed by \<^verbatim>\<open>insertAtCursor("x")\<close> before the next render calls B's handler.
  And an adapter registered under the empty identifier is never reached, because
  \<^verbatim>\<open>!currentActiveId\<close> treats the empty string as "no active input".
\<close>

theorem stale_ref_counterexample:
  "effects [RegisterInput ''A'' ''handlerA'', RegisterInput ''B'' ''handlerB'',
            SetActiveInput ''B'', Render, SetActiveInput ''A'', InsertAtCursor ''x'']
     initialProvider
     = [Invoke ''handlerB'' ''x'']
   \<and> effects [RegisterInput [] ''handlerA'', RegisterInput ''B'' ''handlerB'',
              SetActiveInput [], Render, InsertAtCursor ''x'']
       initialProvider
     = [ConsoleWarn ''No active input to insert LaTeX into'']"
  by (simp add: insertAtCursor_def Let_def falsy_def log_silent registerInput_def
        setActiveInput_def render_def initialProvider_def)

text \<open>
  Claim C4, amended. When the identifier read by \<^verbatim>\<open>insertAtCursor\<close> is \<^verbatim>\<open>null\<close> (or
  empty), the call prints the warning "No active input to insert LaTeX into", calls no
  handler and changes no state; in particular this is so after a render of a provider
  whose active identifier is unset. When the identifier read is non-empty and has no
  registry entry, the call calls no handler, changes no state and prints nothing: the
  condition is passed to \<open>log\<close> only, which is silent because \<open>DEBUG\<close> is false.
  In every case the provider's state is returned unchanged; the function has no
  \<^verbatim>\<open>throw\<close>.
\<close>

theorem dispatch_miss:
  "(falsy (activeInputIdRef s) \<longrightarrow>
      insertAtCursor cmd s = ([ConsoleWarn ''No active input to insert LaTeX into''], s))
   \<and> (activeInputIdRef s = Some a \<and> a \<noteq> [] \<and> inputCallbacks s a = None \<longrightarrow>
      insertAtCursor cmd s = ([], s))
   \<and> (activeInputId s = None \<longrightarrow>
      insertAtCursor cmd (render s) = ([ConsoleWarn ''No active input to insert LaTeX into''], render s))
   \<and> snd (insertAtCursor cmd s) = s"
  by (auto simp add: insertAtCursor_def falsy_def log_silent render_def Let_def split: option.splits)

theorem dispatch_miss_witness:
  "insertAtCursor ''x'' (initialProvider :: string MathProvider)
     = ([ConsoleWarn ''No active input to insert LaTeX into''], initialProvider)
   \<and> insertAtCursor ''x'' (render (setActiveInput ''a'' (initialProvider :: string MathProvider)))
     = ([], render (setActiveInput ''a'' initialProvider))"
proof -
  have "falsy (activeInputIdRef (initialProvider :: string MathProvider))"
    by (simp add: falsy_def initialProvider_def)
  moreover have
    "activeInputIdRef (render (setActiveInput ''a'' (initialProvider :: string MathProvider))) = Some ''a''
     \<and> ''a'' \<noteq> []
     \<and> inputCallbacks (render (setActiveInput ''a'' (initialProvider :: string MathProvider))) ''a'' = None"
    by (simp add: render_def setActiveInput_def initialProvider_def)
  ultimately show ?thesis
    using dispatch_miss [of "initialProvider :: string MathProvider" "''x''"]
      dispatch_miss [of "render (setActiveInput ''a'' (initialProvider :: string MathProvider))" "''x''" "''a''"]
    by blast
qed

text \<open>
  Claim C4 as stated fails in its second half: with an active identifier that has no
  registry entry, \<^verbatim>\<open>insertAtCursor\<close> reports nothing at all.
\<close>

theorem silent_miss_counterexample:
  "insertAtCursor ''x''
     \<lparr>activeInputId = Some ''a'', activeInputIdRef = Some ''a'',
      inputCallbacks = (Map.empty :: string \<rightharpoonup> string)\<rparr>
   = ([], \<lparr>activeInputId = Some ''a'', activeInputIdRef = Some ''a'', inputCallbacks = Map.empty\<rparr>)"
  by (simp add: insertAtCursor_def Let_def falsy_def log_silent)

section \<open>Properties of the keyboard's click handler\<close>

lemmas layout_defs =
  defaultButtons_def abcButtons_def defaultLeftSection_def defaultMiddleSection_def
  defaultRightSection_def abcKeyboardRows_def getUppercaseAbcKeyboard_def shiftButton_def
  btn_def dual_def

lemma click_nothing_iff:
  "fst (handleButtonClick True b k) = [] \<longleftrightarrow>
     dualChar b = None \<and> latex b \<in> set (''SPEAK'' # toggleLabels)"
  by (auto simp add: handleButtonClick_def send_def toggleLabels_def Let_def split: option.splits)

lemma click_at_most_one: "length (fst (handleButtonClick c b k)) \<le> 1"
  by (auto simp add: handleButtonClick_def send_def Let_def split: option.splits)

lemma click_without_context: "fst (handleButtonClick False b k) = []"
  by (auto simp add: handleButtonClick_def send_def Let_def split: option.splits)

lemma layout_toggles_plain:
  "\<forall>b \<in> set (defaultButtons @ abcButtons).
     latex b \<in> set (''SPEAK'' # toggleLabels) \<longrightarrow> dualChar b = None"
  by (simp add: layout_defs toggleLabels_def)

lemma click_plain_forwarded:
  "dualChar b = None \<Longrightarrow> latex b \<notin> set (''SPEAK'' # toggleLabels) \<Longrightarrow>
     fst (handleButtonClick True b k) =
       [if latex b = ''SUBSCRIPT'' then ''SUBSCRIPT_BLOCK''
        else if latex b = ''SUPERSCRIPT'' then ''SUPERSCRIPT_BLOCK''
        else latex b]"
  by (simp add: handleButtonClick_def send_def toggleLabels_def)

lemma click_toggles:
  "dualChar b = None \<Longrightarrow>
     (latex b = ''ABC_MODE'' \<longrightarrow>
        handleButtonClick c b k = ([], k\<lparr>keyboardMode := AbcMode, isFunctionsOpen := False\<rparr>))
     \<and> (latex b = ''123_MODE'' \<longrightarrow>
        handleButtonClick c b k = ([], k\<lparr>keyboardMode := DefaultMode, isShiftActive := False\<rparr>))
     \<and> (latex b = ''SHIFT'' \<longrightarrow>
        handleButtonClick c b k = ([], k\<lparr>isShiftActive := \<not> isShiftActive k\<rparr>))
     \<and> (latex b = ''FUNCTIONS'' \<longrightarrow>
        handleButtonClick c b k = ([], k\<lparr>isFunctionsOpen := \<not> isFunctionsOpen k\<rparr>))
     \<and> (latex b = ''SPEAK'' \<longrightarrow> handleButtonClick c b k = ([], k))"
  by (simp add: handleButtonClick_def)

text \<open>
  Claim C8, amended. A click sends nothing to the provider exactly when the button has
  no dual-character variant and its \<^verbatim>\<open>latex\<close> is one of \<^verbatim>\<open>ABC_MODE\<close>,
  \<^verbatim>\<open>123_MODE\<close>, \<^verbatim>\<open>SHIFT\<close>, \<^verbatim>\<open>FUNCTIONS\<close> or \<^verbatim>\<open>SPEAK\<close>; for the buttons
  of the shipped layouts that is exactly when the \<^verbatim>\<open>latex\<close> is one of these five. The
  first four change keyboard state only (mode and panel, mode and shift, shift, panel);
  \<^verbatim>\<open>SPEAK\<close> changes nothing. Every other click makes one call of
  \<^verbatim>\<open>insertAtCursor\<close> when a provider is present: with the button's \<^verbatim>\<open>latex\<close>
  (arrows, backspace, enter and literals), or with \<^verbatim>\<open>SUBSCRIPT_BLOCK\<close> /
  \<^verbatim>\<open>SUPERSCRIPT_BLOCK\<close> for \<^verbatim>\<open>SUBSCRIPT\<close> / \<^verbatim>\<open>SUPERSCRIPT\<close>. Without a provider
  no click sends anything.
\<close>

theorem button_dispatch_table:
  "(fst (handleButtonClick True b k) = [] \<longleftrightarrow>
      dualChar b = None \<and> latex b \<in> set (''SPEAK'' # toggleLabels))
   \<and> length (fst (handleButtonClick True b k)) \<le> 1
   \<and> (\<forall>b \<in> set (defaultButtons @ abcButtons).
        fst (handleButtonClick True b k) = [] \<longleftrightarrow> latex b \<in> set (''SPEAK'' # toggleLabels))
   \<and> (dualChar b = None \<and> latex b \<notin> set (''SPEAK'' # toggleLabels) \<longrightarrow>
        fst (handleButtonClick True b k) =
          [if latex b = ''SUBSCRIPT'' then ''SUBSCRIPT_BLOCK''
           else if latex b = ''SUPERSCRIPT'' then ''SUPERSCRIPT_BLOCK''
           else latex b])
   \<and> (dualChar b = None \<and> latex b = ''ABC_MODE'' \<longrightarrow>
        handleButtonClick True b k = ([], k\<lparr>keyboardMode := AbcMode, isFunctionsOpen := False\<rparr>))
   \<and> (dualChar b = None \<and> latex b = ''123_MODE'' \<longrightarrow>
        handleButtonClick True b k = ([], k\<lparr>keyboardMode := DefaultMode, isShiftActive := False\<rparr>))
   \<and> (dualChar b = None \<and> latex b = ''SHIFT'' \<longrightarrow>
        handleButtonClick True b k = ([], k\<lparr>isShiftActive := \<not> isShiftActive k\<rparr>))
   \<and> (dualChar b = None \<and> latex b = ''FUNCTIONS'' \<longrightarrow>
        handleButtonClick True b k = ([], k\<lparr>isFunctionsOpen := \<not> isFunctionsOpen k\<rparr>))
   \<and> (dualChar b = None \<and> latex b = ''SPEAK'' \<longrightarrow> handleButtonClick True b k = ([], k))
   \<and> fst (handleButtonClick False b k) = []"
proof -
  have layout: "\<forall>b \<in> set (defaultButtons @ abcButtons).
        fst (handleButtonClick True b k) = [] \<longleftrightarrow> latex b \<in> set (''SPEAK'' # toggleLabels)"
    using layout_toggles_plain by (auto simp only: click_nothing_iff)
  show ?thesis
    using click_nothing_iff [of b k] click_at_most_one [of True b k] layout
      click_plain_forwarded [of b k] click_toggles [of b True k] click_without_context [of b k]
    by blast
qed

theorem button_dispatch_table_witness:
  "fst (handleButtonClick True (defaultRightSection ! 1 ! 0) (initialKeyboard True)) = [''ARROW_LEFT'']
   \<and> handleButtonClick True (defaultLeftSection ! 3 ! 0) (initialKeyboard True)
       = ([], (initialKeyboard True)\<lparr>keyboardMode := AbcMode, isFunctionsOpen := False\<rparr>)"
proof -
  have a: "dualChar (defaultRightSection ! 1 ! 0) = None
      \<and> latex (defaultRightSection ! 1 ! 0) \<notin> set (''SPEAK'' # toggleLabels)
      \<and> latex (defaultRightSection ! 1 ! 0) = ''ARROW_LEFT''"
    by (simp add: defaultRightSection_def btn_def toggleLabels_def)
  have b: "dualChar (defaultLeftSection ! 3 ! 0) = None
      \<and> latex (defaultLeftSection ! 3 ! 0) = ''ABC_MODE''"
    by (simp add: defaultLeftSection_def btn_def)
  show ?thesis
    using a b
      button_dispatch_table [of "defaultRightSection ! 1 ! 0" "initialKeyboard True"]
      button_dispatch_table [of "defaultLeftSection ! 3 ! 0" "initialKeyboard True"]
    by (simp add: toggleLabels_def)
qed

text \<open>
  Claim C8 as stated fails at the \<^verbatim>\<open>SPEAK\<close> button of the default layout: it is not
  a mode, shift or panel toggle, and a click on it sends nothing and changes nothing.
\<close>

theorem speak_button_counterexample:
  "latex (defaultLeftSection ! 3 ! 1) = ''SPEAK''
   \<and> latex (defaultLeftSection ! 3 ! 1) \<notin> set toggleLabels
   \<and> handleButtonClick True (defaultLeftSection ! 3 ! 1) (initialKeyboard True)
       = ([], initialKeyboard True)"
  by (simp add: defaultLeftSection_def btn_def toggleLabels_def handleButtonClick_def)

lemma click_dual:
  "dualChar b = Some d \<Longrightarrow>
     handleButtonClick c b k =
       (send c (let activeLatex = (if isShiftActive k then secondaryLatex d else primaryLatex d) in
                if activeLatex = ''SUBSCRIPT'' then ''SUBSCRIPT_BLOCK''
                else if activeLatex = ''SUPERSCRIPT'' then ''SUPERSCRIPT_BLOCK''
                else activeLatex), k)"
  by (simp add: handleButtonClick_def Let_def)

lemma layout_duals_literal:
  "\<forall>b \<in> set (defaultButtons @ abcButtons). \<forall>d. dualChar b = Some d \<longrightarrow>
     primaryLatex d \<notin> {''SUBSCRIPT'', ''SUPERSCRIPT''}
     \<and> secondaryLatex d \<notin> {''SUBSCRIPT'', ''SUPERSCRIPT''}"
  by (simp add: layout_defs)

text \<open>
  Claim C9, amended. With a provider present, a click on a dual-character button sends
  the primary LaTeX while shift is off and the secondary LaTeX while shift is on, and
  leaves the keyboard state unchanged, provided the selected LaTeX is not the action name
  \<^verbatim>\<open>SUBSCRIPT\<close> or \<^verbatim>\<open>SUPERSCRIPT\<close>; this covers every dual-character button of the
  shipped layouts, and the button \<^verbatim>\<open>! %\<close> sends \<^verbatim>\<open>!\<close> unshifted and \<^verbatim>\<open>%\<close>
  shifted. A selected LaTeX \<^verbatim>\<open>SUBSCRIPT\<close> or \<^verbatim>\<open>SUPERSCRIPT\<close> is sent as
  \<^verbatim>\<open>SUBSCRIPT_BLOCK\<close> or \<^verbatim>\<open>SUPERSCRIPT_BLOCK\<close>.
\<close>

theorem dual_button_dispatch:
  "(dualChar b = Some d
      \<and> (if isShiftActive k then secondaryLatex d else primaryLatex d) \<notin> {''SUBSCRIPT'', ''SUPERSCRIPT''}
      \<longrightarrow> handleButtonClick True b k
            = ([if isShiftActive k then secondaryLatex d else primaryLatex d], k))
   \<and> (\<forall>b \<in> set (defaultButtons @ abcButtons). \<forall>d. dualChar b = Some d \<longrightarrow>
        handleButtonClick True b k
          = ([if isShiftActive k then secondaryLatex d else primaryLatex d], k))
   \<and> dualChar (abcKeyboardRows ! 3 ! 2)
        = Some \<lparr>primary = ''!'', primaryLatex = ''!'', secondary = ''%'', secondaryLatex = ''%''\<rparr>
   \<and> (\<not> isShiftActive k \<longrightarrow> handleButtonClick True (abcKeyboardRows ! 3 ! 2) k = ([''!''], k))
   \<and> (isShiftActive k \<longrightarrow> handleButtonClick True (abcKeyboardRows ! 3 ! 2) k = ([''%''], k))
   \<and> (dualChar b = Some d
        \<and> (if isShiftActive k then secondaryLatex d else primaryLatex d) = ''SUBSCRIPT''
        \<longrightarrow> handleButtonClick True b k = ([''SUBSCRIPT_BLOCK''], k))
   \<and> (dualChar b = Some d
        \<and> (if isShiftActive k then secondaryLatex d else primaryLatex d) = ''SUPERSCRIPT''
        \<longrightarrow> handleButtonClick True b k = ([''SUPERSCRIPT_BLOCK''], k))"
proof -
  have general: "handleButtonClick True b k
            = ([if isShiftActive k then secondaryLatex d else primaryLatex d], k)"
    if "dualChar b = Some d"
      and "(if isShiftActive k then secondaryLatex d else primaryLatex d) \<notin> {''SUBSCRIPT'', ''SUPERSCRIPT''}"
    for b d
    using that by (simp add: click_dual send_def Let_def)
  have layout: "\<forall>b \<in> set (defaultButtons @ abcButtons). \<forall>d. dualChar b = Some d \<longrightarrow>
        handleButtonClick True b k
          = ([if isShiftActive k then secondaryLatex d else primaryLatex d], k)"
  proof (intro ballI allI impI)
    fix b d
    assume "b \<in> set (defaultButtons @ abcButtons)" and d: "dualChar b = Some d"
    with layout_duals_literal
    have "primaryLatex d \<notin> {''SUBSCRIPT'', ''SUPERSCRIPT''}
       \<and> secondaryLatex d \<notin> {''SUBSCRIPT'', ''SUPERSCRIPT''}"
      by blast
    then have "(if isShiftActive k then secondaryLatex d else primaryLatex d)
                 \<notin> {''SUBSCRIPT'', ''SUPERSCRIPT''}"
      by simp
    with d show "handleButtonClick True b k
          = ([if isShiftActive k then secondaryLatex d else primaryLatex d], k)"
      by (rule general)
  qed
  have exclaim: "dualChar (abcKeyboardRows ! 3 ! 2)
        = Some \<lparr>primary = ''!'', primaryLatex = ''!'', secondary = ''%'', secondaryLatex = ''%''\<rparr>"
    by (simp add: abcKeyboardRows_def dual_def)
  have off: "\<not> isShiftActive k \<longrightarrow> handleButtonClick True (abcKeyboardRows ! 3 ! 2) k = ([''!''], k)"
    using general [OF exclaim] by simp
  have on: "isShiftActive k \<longrightarrow> handleButtonClick True (abcKeyboardRows ! 3 ! 2) k = ([''%''], k)"
    using general [OF exclaim] by simp
  have sub: "dualChar b = Some d
        \<and> (if isShiftActive k then secondaryLatex d else primaryLatex d) = ''SUBSCRIPT''
        \<longrightarrow> handleButtonClick True b k = ([''SUBSCRIPT_BLOCK''], k)"
    by (simp add: click_dual send_def Let_def)
  have sup: "dualChar b = Some d
        \<and> (if isShiftActive k then secondaryLatex d else primaryLatex d) = ''SUPERSCRIPT''
        \<longrightarrow> handleButtonClick True b k = ([''SUPERSCRIPT_BLOCK''], k)"
    by (simp add: click_dual send_def Let_def)
  from general [of b d] layout exclaim off on sub sup show ?thesis
    by blast
qed

theorem dual_button_dispatch_witness:
  "handleButtonClick True (abcKeyboardRows ! 3 ! 5) ((initialKeyboard True)\<lparr>isShiftActive := True\<rparr>)
     = (['':''], (initialKeyboard True)\<lparr>isShiftActive := True\<rparr>)
   \<and> handleButtonClick True (abcKeyboardRows ! 3 ! 2) (initialKeyboard True)
     = ([''!''], initialKeyboard True)
   \<and> handleButtonClick True (abcKeyboardRows ! 3 ! 2) ((initialKeyboard True)\<lparr>isShiftActive := True\<rparr>)
     = ([''%''], (initialKeyboard True)\<lparr>isShiftActive := True\<rparr>)"
proof -
  let ?k = "(initialKeyboard True)\<lparr>isShiftActive := True\<rparr>"
  let ?d = "\<lparr>primary = ''~'', primaryLatex = backslash # ''sim '', secondary = '':'',
             secondaryLatex = '':''\<rparr>"
  have d: "dualChar (abcKeyboardRows ! 3 ! 5) = Some ?d"
    by (simp add: abcKeyboardRows_def dual_def)
  have a: "(if isShiftActive ?k then secondaryLatex ?d else primaryLatex ?d)
             \<notin> {''SUBSCRIPT'', ''SUPERSCRIPT''}"
    by simp
  have off: "\<not> isShiftActive (initialKeyboard True)"
    by (simp add: initialKeyboard_def)
  have on: "isShiftActive ?k"
    by simp
  from d a dual_button_dispatch [of "abcKeyboardRows ! 3 ! 5" ?d ?k]
  have "handleButtonClick True (abcKeyboardRows ! 3 ! 5) ?k
          = ([if isShiftActive ?k then secondaryLatex ?d else primaryLatex ?d], ?k)"
    by blast
  then have colon: "handleButtonClick True (abcKeyboardRows ! 3 ! 5) ?k = (['':''], ?k)"
    by simp
  from off dual_button_dispatch [of "abcKeyboardRows ! 3 ! 5" ?d "initialKeyboard True"]
  have exclaim: "handleButtonClick True (abcKeyboardRows ! 3 ! 2) (initialKeyboard True)
          = ([''!''], initialKeyboard True)"
    by blast
  from on dual_button_dispatch [of "abcKeyboardRows ! 3 ! 5" ?d ?k]
  have percent: "handleButtonClick True (abcKeyboardRows ! 3 ! 2) ?k = ([''%''], ?k)"
    by blast
  from colon exclaim percent show ?thesis
    by blast
qed

text \<open>
  Claim C9 as stated fails for a dual-character descriptor whose primary LaTeX is
  \<^verbatim>\<open>SUBSCRIPT\<close>: unshifted, the click sends \<^verbatim>\<open>SUBSCRIPT_BLOCK\<close>.
\<close>

theorem dual_subscript_counterexample:
  "fst (handleButtonClick True
          (dual ''DUAL_SUB_SUP'' Action ''a_b'' ''SUBSCRIPT'' ''a^b'' ''SUPERSCRIPT'')
          (initialKeyboard True))
     = [''SUBSCRIPT_BLOCK'']
   \<and> primaryLatex (the (dualChar (dual ''DUAL_SUB_SUP'' Action ''a_b'' ''SUBSCRIPT'' ''a^b'' ''SUPERSCRIPT'')))
     = ''SUBSCRIPT''
   \<and> \<not> isShiftActive (initialKeyboard True)"
  by (simp add: handleButtonClick_def dual_def send_def initialKeyboard_def)

lemma layout_letters_plain:
  "\<forall>b \<in> set (defaultButtons @ abcButtons).
     type b = Letter \<longrightarrow> dualChar b = None \<and> latex b \<notin> set switchLabels"
  by (simp add: layout_defs switchLabels_def toUpperCase_def upperChar_def)

lemma click_letter:
  "type b = Letter \<Longrightarrow> dualChar b = None \<Longrightarrow> latex b \<notin> set switchLabels \<Longrightarrow>
     isShiftActive k \<Longrightarrow>
     handleButtonClick c b k = (send c (latex b), k\<lparr>isShiftActive := False\<rparr>)"
  by (simp add: handleButtonClick_def switchLabels_def)

lemma click_dual_state: "dualChar b \<noteq> None \<Longrightarrow> snd (handleButtonClick c b k) = k"
  by (auto simp add: handleButtonClick_def Let_def)

lemma click_other_shift:
  "dualChar b = None \<Longrightarrow> type b \<noteq> Letter \<Longrightarrow> latex b \<noteq> ''SHIFT'' \<Longrightarrow>
     latex b \<noteq> ''123_MODE'' \<Longrightarrow>
     isShiftActive (snd (handleButtonClick c b k)) = isShiftActive k"
  by (simp add: handleButtonClick_def)

text \<open>
  Claim C10, amended. A click on a letter button without dual-character variant whose
  \<^verbatim>\<open>latex\<close> is not a label of the \<^verbatim>\<open>switch\<close> sends that \<^verbatim>\<open>latex\<close> and, when shift
  was active, leaves shift inactive and the rest of the keyboard state unchanged; every
  letter button of the shipped layouts, in both shift states, is of this kind. A click
  on a dual-character button changes no keyboard state. A click on a non-letter button
  other than \<^verbatim>\<open>SHIFT\<close> and \<^verbatim>\<open>123_MODE\<close> leaves the shift flag as it was;
  \<^verbatim>\<open>SHIFT\<close> inverts it and \<^verbatim>\<open>123_MODE\<close> clears it.
\<close>

theorem shift_after_click:
  "(type b = Letter \<and> dualChar b = None \<and> latex b \<notin> set switchLabels \<and> isShiftActive k \<longrightarrow>
      handleButtonClick c b k = (send c (latex b), k\<lparr>isShiftActive := False\<rparr>))
   \<and> (\<forall>b \<in> set (defaultButtons @ abcButtons). type b = Letter \<and> isShiftActive k \<longrightarrow>
        handleButtonClick c b k = (send c (latex b), k\<lparr>isShiftActive := False\<rparr>))
   \<and> (dualChar b \<noteq> None \<longrightarrow> snd (handleButtonClick c b k) = k)
   \<and> (dualChar b = None \<and> type b \<noteq> Letter \<and> latex b \<noteq> ''SHIFT'' \<and> latex b \<noteq> ''123_MODE'' \<longrightarrow>
        isShiftActive (snd (handleButtonClick c b k)) = isShiftActive k)
   \<and> (dualChar b = None \<and> latex b = ''SHIFT'' \<longrightarrow>
        isShiftActive (snd (handleButtonClick c b k)) = (\<not> isShiftActive k))
   \<and> (dualChar b = None \<and> latex b = ''123_MODE'' \<longrightarrow>
        \<not> isShiftActive (snd (handleButtonClick c b k)))"
proof -
  have layout: "\<forall>b \<in> set (defaultButtons @ abcButtons). type b = Letter \<and> isShiftActive k \<longrightarrow>
        handleButtonClick c b k = (send c (latex b), k\<lparr>isShiftActive := False\<rparr>)"
    using layout_letters_plain click_letter by blast
  have shift: "dualChar b = None \<and> latex b = ''SHIFT'' \<longrightarrow>
        isShiftActive (snd (handleButtonClick c b k)) = (\<not> isShiftActive k)"
    by (simp add: handleButtonClick_def)
  have mode: "dualChar b = None \<and> latex b = ''123_MODE'' \<longrightarrow>
        \<not> isShiftActive (snd (handleButtonClick c b k))"
    by (simp add: handleButtonClick_def)
  from click_letter [of b k c] layout click_dual_state [of b c k] click_other_shift [of b c k]
    shift mode
  show ?thesis by blast
qed

theorem shift_after_click_witness:
  "handleButtonClick True (getUppercaseAbcKeyboard ! 0 ! 0)
     \<lparr>isVisible = True, keyboardMode = AbcMode, isShiftActive = True, isFunctionsOpen = False\<rparr>
   = ([''Q''],
      \<lparr>isVisible = True, keyboardMode = AbcMode, isShiftActive = False, isFunctionsOpen = False\<rparr>)"
proof -
  let ?k = "\<lparr>isVisible = True, keyboardMode = AbcMode, isShiftActive = True,
             isFunctionsOpen = False\<rparr>"
  have q: "getUppercaseAbcKeyboard ! 0 ! 0 = btn ''Q'' Letter"
    by (simp add: getUppercaseAbcKeyboard_def abcKeyboardRows_def shiftButton_def btn_def
          toUpperCase_def upperChar_def)
  have "type (btn ''Q'' Letter) = Letter \<and> dualChar (btn ''Q'' Letter) = None
      \<and> latex (btn ''Q'' Letter) \<notin> set switchLabels \<and> isShiftActive ?k"
    by (simp add: btn_def switchLabels_def)
  with shift_after_click [of "btn ''Q'' Letter" ?k True]
  have "handleButtonClick True (btn ''Q'' Letter) ?k
          = (send True (latex (btn ''Q'' Letter)), ?k\<lparr>isShiftActive := False\<rparr>)"
    by blast
  with q show ?thesis
    by (simp add: send_def btn_def)
qed

text \<open>
  Claim C10 as stated fails at the \<^verbatim>\<open>123_MODE\<close> button of the letters layout: it is
  an action button, not \<^verbatim>\<open>SHIFT\<close>, and a click on it while shift is active clears
  the shift flag.
\<close>

theorem mode_switch_resets_shift_counterexample:
  "type (getUppercaseAbcKeyboard ! 3 ! 0) = Action
   \<and> latex (getUppercaseAbcKeyboard ! 3 ! 0) = ''123_MODE''
   \<and> dualChar (getUppercaseAbcKeyboard ! 3 ! 0) = None
   \<and> snd (handleButtonClick True (getUppercaseAbcKeyboard ! 3 ! 0)
        \<lparr>isVisible = True, keyboardMode = AbcMode, isShiftActive = True, isFunctionsOpen = False\<rparr>)
     = \<lparr>isVisible = True, keyboardMode = DefaultMode, isShiftActive = False, isFunctionsOpen = False\<rparr>"
  by (simp add: getUppercaseAbcKeyboard_def abcKeyboardRows_def shiftButton_def btn_def
        handleButtonClick_def)

section \<open>Properties of the input's mount\<close>

lemma mount_failed:
  "mq = NotLoaded \<or> mq = Loaded (Throws e) \<Longrightarrow>
     mount props mq hasContext g r
       = (fst (initEffect props mq) @ registrationEffect props hasContext g, False)"
  by (auto simp add: mount_def syncEffect_def disabledEffect_def split: option.splits)

text \<open>
  Claim C6, amended. Let the equation editor fail to initialise on mount: MathQuill is
  not loaded, or constructing the field throws. Then no field exists afterwards and a
  console error is printed; when the construction threw an \<^verbatim>\<open>Error\<close> and \<^verbatim>\<open>onError\<close>
  was supplied, that error is passed to \<^verbatim>\<open>onError\<close>. The registration effect still
  runs: with a provider present the input registers its handler under its identifier.
  That handler does nothing while no field exists. The interactive state of the
  container is not touched, and the rendered element is marked disabled exactly when the
  \<^verbatim>\<open>disabled\<close> prop is set.
\<close>

theorem mount_after_failed_init:
  "mq = NotLoaded \<or> mq = Loaded (Throws e) \<longrightarrow>
     snd (mount props mq hasContext g r) = False
     \<and> (\<exists>msg. ConsoleError msg \<in> set (fst (mount props mq hasContext g r)))
     \<and> (hasContext \<longrightarrow> ProviderRegister (inputId props g) \<in> set (fst (mount props mq hasContext g r)))
     \<and> (\<forall>b. SetInteractive b \<notin> set (fst (mount props mq hasContext g r)))
     \<and> (mq = Loaded (Throws e) \<and> onError props \<and> isError e \<longrightarrow>
          OnError e \<in> set (fst (mount props mq hasContext g r)))
     \<and> handleKeyboardInsertion (snd (mount props mq hasContext g r)) cmd = []
     \<and> rendersDisabled props = disabled props"
proof
  assume failed: "mq = NotLoaded \<or> mq = Loaded (Throws e)"
  note m = mount_failed [OF failed, of props hasContext g r]
  from failed show "snd (mount props mq hasContext g r) = False
     \<and> (\<exists>msg. ConsoleError msg \<in> set (fst (mount props mq hasContext g r)))
     \<and> (hasContext \<longrightarrow> ProviderRegister (inputId props g) \<in> set (fst (mount props mq hasContext g r)))
     \<and> (\<forall>b. SetInteractive b \<notin> set (fst (mount props mq hasContext g r)))
     \<and> (mq = Loaded (Throws e) \<and> onError props \<and> isError e \<longrightarrow>
          OnError e \<in> set (fst (mount props mq hasContext g r)))
     \<and> handleKeyboardInsertion (snd (mount props mq hasContext g r)) cmd = []
     \<and> rendersDisabled props = disabled props"
    unfolding m
    by (auto simp add: registrationEffect_def handleKeyboardInsertion_def rendersDisabled_def)
qed

theorem mount_after_failed_init_witness:
  "OnError (ErrorObject ''boom'')
     \<in> set (fst (mount \<lparr>controlledValue = None, defaultValue = [], idProp = Some ''eq1'',
                        disabled = False, readOnly = False, autoFocus = False, onError = True\<rparr>
                  (Loaded (Throws (ErrorObject ''boom''))) True ''math-input-k3x9'' []))
   \<and> ProviderRegister ''eq1''
     \<in> set (fst (mount \<lparr>controlledValue = None, defaultValue = [], idProp = Some ''eq1'',
                        disabled = False, readOnly = False, autoFocus = False, onError = True\<rparr>
                  (Loaded (Throws (ErrorObject ''boom''))) True ''math-input-k3x9'' []))"
proof -
  let ?p = "\<lparr>controlledValue = None, defaultValue = [], idProp = Some ''eq1'',
             disabled = False, readOnly = False, autoFocus = False, onError = True\<rparr>"
  have "(Loaded (Throws (ErrorObject ''boom'')) = NotLoaded
          \<or> Loaded (Throws (ErrorObject ''boom'')) = Loaded (Throws (ErrorObject ''boom'')))
        \<and> onError ?p \<and> isError (ErrorObject ''boom'') \<and> inputId ?p ''math-input-k3x9'' = ''eq1''"
    by (simp add: isError_def inputId_def)
  with mount_after_failed_init
    [of "Loaded (Throws (ErrorObject ''boom''))" "ErrorObject ''boom''" ?p True "''math-input-k3x9''" "[]"]
  show ?thesis
    by simp
qed

text \<open>
  Claim C6 as stated fails: when the construction throws, the input still registers
  with the provider and, without the \<^verbatim>\<open>disabled\<close> prop, is not rendered disabled.
\<close>

theorem failed_init_still_registers_counterexample:
  "mount \<lparr>controlledValue = None, defaultValue = [], idProp = Some ''eq1'',
          disabled = False, readOnly = False, autoFocus = False, onError = True\<rparr>
     (Loaded (Throws (ErrorObject ''boom''))) True ''math-input-k3x9'' []
   = ([OnError (ErrorObject ''boom''), ConsoleError ''Failed to initialize MathQuill:'',
       ProviderRegister ''eq1''], False)
   \<and> \<not> rendersDisabled \<lparr>controlledValue = None, defaultValue = [], idProp = Some ''eq1'',
          disabled = False, readOnly = False, autoFocus = False, onError = True\<rparr>"
  by (simp add: mount_def syncEffect_def registrationEffect_def disabledEffect_def inputId_def
        isError_def rendersDisabled_def)

end
